theory Spec2Isabelle
  imports Main "HOL-Library.Word"
begin

section \<open>The NDR benchmark tool (stl\_ndr\_bench\_tool.py)\<close>

text \<open>
  The tool is orchestration over an external traffic-generator client: it connects, maps
  ports, builds streams, hands a configuration to an external search and reports. The
  model keeps the tool's own control flow as it is written and records every call that
  leaves the file as an event of a history. The external side is a parameter: an
  environment that decides, from the history of calls made so far (each with its
  arguments), whether the current call raises and what it returns.
\<close>

subsection \<open>Python values\<close>

text \<open>
  The arguments are dynamically typed. A float is kept as its IEEE-754 bit pattern; the
  tool only passes floats on and tests truthiness.
\<close>

datatype pyval = PyNone | PyBool bool | PyInt int | PyFloat "64 word" | PyStr string

fun truthy :: "pyval \<Rightarrow> bool" where
  "truthy PyNone = False"
| "truthy (PyBool b) = b"
| "truthy (PyInt i) = (i \<noteq> 0)"
| "truthy (PyFloat w) = (w \<noteq> 0 \<and> w \<noteq> 0x8000000000000000)"
| "truthy (PyStr s) = (s \<noteq> [])"

text \<open>\<open>ports_list\<close> is \<open>None\<close> or a list of port numbers; both \<open>None\<close> and \<open>[]\<close> are falsy.\<close>

fun truthy_list :: "'a list option \<Rightarrow> bool" where
  "truthy_list None = False"
| "truthy_list (Some xs) = (xs \<noteq> [])"

fun the_list :: "'a list option \<Rightarrow> 'a list" where
  "the_list None = []"
| "the_list (Some xs) = xs"

datatype exn =
    STLError string
  | UnboundLocalError string
  | IndexError string
  | OtherError string

datatype 'a outcome = Return 'a | Raise exn | Exit int

subsection \<open>Objects handed to the external library\<close>

text \<open>\<open>stl_bench.ip_range['src'|'dst']['start'|'end']\<close>.\<close>

record ip_range =
  src_start :: pyval
  src_end :: pyval
  dst_start :: pyval
  dst_end :: pyval

text \<open>The table of \<open>stl_map_ports\<close>; the tool reads only the key \<open>'bi'\<close>, a list of pairs.\<close>

record port_table =
  bi :: "(int \<times> int) list"

text \<open>The packet library's constructors build values and are kept as data.\<close>

datatype layer = Ether | IP string string | UDP int int | Payload string

datatype pkt_builder = STLPktBuilder "layer list"

datatype flow_stats = STLFlowLatencyStats int

datatype tx_mode = STLTXSingleBurst int int

text \<open>
  A stream is either one the tool builds itself,
  \<open>STLStream(name, packet, flow_stats, mode)\<close>, or one built inside the external stream
  builder, opaque to the tool.
\<close>

datatype 's stream =
    Bench_stream 's
  | STLStream string pkt_builder flow_stats tx_mode

text \<open>The keyword arguments of \<open>ndr.NdrBenchConfig(...)\<close>.\<close>

record config =
  cfg_ports :: "int list"
  cfg_pkt_size :: pyval
  cfg_vm :: pyval
  cfg_iteration_duration :: pyval
  cfg_q_ful_resolution :: pyval
  cfg_first_run_duration :: pyval
  cfg_pdr :: pyval
  cfg_pdr_error :: pyval
  cfg_ndr_results :: pyval
  cfg_latency :: pyval
  cfg_core_mask :: pyval
  cfg_verbose :: pyval
  cfg_drop_rate_interval :: pyval

subsection \<open>Events, histories and the environment\<close>

datatype 's event =
    Print string
  | New_STLClient pyval
  | Connect
  | Reset
  | Stl_map_ports
  | New_STLBench
  | Get_streams ip_range pyval pyval int
  | Add_streams "'s stream list" "int list"
  | New_NdrBenchConfig config
  | New_NdrBench config
  | Find_ndr
  | Print_final pyval
  | Disconnect
  | To_json

text \<open>
  Every field reads the history up to and including the call it answers. \<open>raises\<close> says
  whether that call raises; the others give the value a call returns when it does not.
\<close>

record 's env =
  raises :: "'s event list \<Rightarrow> exn option"
  map_ports_result :: "'s event list \<Rightarrow> port_table"
  bench_ip_range :: "'s event list \<Rightarrow> ip_range"
  streams_result :: "'s event list \<Rightarrow> 's stream list"
  json_result :: "'s event list \<Rightarrow> string"

type_synonym ('s, 'a) prog = "'s event list \<Rightarrow> 'a outcome \<times> 's event list"

definition ret :: "'a \<Rightarrow> ('s, 'a) prog" where
  "ret x h = (Return x, h)"

definition raise :: "exn \<Rightarrow> ('s, 'a) prog" where
  "raise e h = (Raise e, h)"

definition sys_exit :: "int \<Rightarrow> ('s, 'a) prog" where
  "sys_exit n h = (Exit n, h)"

definition print :: "string \<Rightarrow> ('s, unit) prog" where
  "print s h = (Return (), h @ [Print s])"

definition andthen :: "('s, 'a) prog \<Rightarrow> ('a \<Rightarrow> ('s, 'b) prog) \<Rightarrow> ('s, 'b) prog" where
  "andthen m k h =
     (case m h of
        (Return x, h') \<Rightarrow> k x h'
      | (Raise e, h') \<Rightarrow> (Raise e, h')
      | (Exit n, h') \<Rightarrow> (Exit n, h'))"

text \<open>An external call: the event is recorded, then the environment answers.\<close>

definition extern :: "'s env \<Rightarrow> 's event \<Rightarrow> ('s event list \<Rightarrow> 'a) \<Rightarrow> ('s, 'a) prog" where
  "extern env ev result h =
     (let h' = h @ [ev] in
      case raises env h' of
        Some e \<Rightarrow> (Raise e, h')
      | None \<Rightarrow> (Return (result h'), h'))"

text \<open>
  \<open>try: body except STLError as e: handler(e) finally: fin\<close>. The handler runs on an
  \<open>STLError\<close> of the body only; \<open>fin\<close> runs in every case, and what was pending (a value,
  an exception, an exit) resumes unless \<open>fin\<close> itself raises or exits.
\<close>

definition try_except_finally ::
  "('s, 'a) prog \<Rightarrow> (string \<Rightarrow> ('s, 'a) prog) \<Rightarrow> ('s, unit) prog \<Rightarrow> ('s, 'a) prog" where
  "try_except_finally body handler fin h =
     (let (r1, h1) = body h;
          (r2, h2) = (case r1 of Raise (STLError m) \<Rightarrow> handler m h1 | _ \<Rightarrow> (r1, h1));
          (r3, h3) = fin h2
      in case r3 of
           Return _ \<Rightarrow> (r2, h3)
         | Raise e \<Rightarrow> (Raise e, h3)
         | Exit n \<Rightarrow> (Exit n, h3))"

subsection \<open>build\_streams\_for\_bench\<close>

text \<open>Lines 14 to 21: each address given (truthy) replaces one end of a range.\<close>

definition override_ip_range :: "ip_range \<Rightarrow> pyval \<Rightarrow> pyval \<Rightarrow> pyval \<Rightarrow> pyval \<Rightarrow> ip_range" where
  "override_ip_range r0 src_start_ip src_stop_ip dest_start_ip dest_stop_ip =
     (let r1 = (if truthy src_start_ip then r0\<lparr>src_start := src_start_ip\<rparr> else r0);
          r2 = (if truthy src_stop_ip then r1\<lparr>src_end := src_stop_ip\<rparr> else r1);
          r3 = (if truthy dest_start_ip then r2\<lparr>dst_start := dest_start_ip\<rparr> else r2);
          r4 = (if truthy dest_stop_ip then r3\<lparr>dst_end := dest_stop_ip\<rparr> else r3)
      in r4)"

text \<open>
  The local \<open>stl_bench\<close> is bound only inside \<open>if vm:\<close>; it is an option here, and reading
  it unbound raises.
\<close>

definition build_streams_for_bench ::
  "'s env \<Rightarrow> pyval \<Rightarrow> pyval \<Rightarrow> pyval \<Rightarrow> pyval \<Rightarrow> pyval \<Rightarrow> pyval \<Rightarrow> int \<Rightarrow> ('s, 's stream list) prog" where
  "build_streams_for_bench env size' vm src_start_ip src_stop_ip dest_start_ip dest_stop_ip direction =
     andthen
       (if truthy vm then
          andthen (extern env New_STLBench (bench_ip_range env)) (\<lambda>r0.
          ret (Some (override_ip_range r0 src_start_ip src_stop_ip dest_start_ip dest_stop_ip)))
        else ret None)
       (\<lambda>stl_bench.
          case stl_bench of
            None \<Rightarrow> raise (UnboundLocalError ''stl_bench'')
          | Some b \<Rightarrow>
              andthen (extern env (Get_streams b size' vm direction) (streams_result env)) (\<lambda>streams.
              ret streams))"

subsection \<open>ndr\_benchmark\_test\<close>

record params =
  server :: pyval
  core_mask :: pyval
  pdr :: pyval
  iteration_duration :: pyval
  ndr_results :: pyval
  setup_name :: pyval
  first_run_duration :: pyval
  verbose :: pyval
  pdr_error :: pyval
  q_ful_resolution :: pyval
  latency :: pyval
  vm :: pyval
  pkt_size :: pyval
  fe_src_start_ip :: pyval
  fe_src_stop_ip :: pyval
  fe_dst_start_ip :: pyval
  fe_dst_stop_ip :: pyval
  drop_rate_interval :: pyval
  "output" :: pyval
  ports_list :: "int list option"

text \<open>\<open>[ports_list[i] for i in range(0, len(ports_list), 2)]\<close>\<close>

definition every_second :: "'a list \<Rightarrow> 'a list" where
  "every_second xs = map (\<lambda>i. xs ! i) (filter even [0..<length xs])"

text \<open>Lines 50 to 55: the transmit side \<open>dir_0\<close> and the ports of the configuration.\<close>

definition select_ports :: "int list option \<Rightarrow> port_table \<Rightarrow> ('s, int list \<times> int list) prog" where
  "select_ports pl table =
     (if truthy_list pl then ret (every_second (the_list pl), the_list pl)
      else
        case bi table of
          [] \<Rightarrow> raise (IndexError ''list index out of range'')
        | (a, b) # _ \<Rightarrow> ret ([a], [a, b]))"

text \<open>The latency stream of lines 66 to 75.\<close>

definition latency_stream :: "'s stream" where
  "latency_stream =
     (let burst_size = 1000;
          pps = 1000;
          pkt = STLPktBuilder [Ether, IP ''16.0.0.1'' ''48.0.0.1'', UDP 12 1025,
                               Payload ''at_least_16_bytes_payload_needed''];
          total_pkts = burst_size
      in STLStream ''rx'' pkt (STLFlowLatencyStats 5) (STLTXSingleBurst total_pkts pps))"

definition make_config :: "params \<Rightarrow> int list \<Rightarrow> config" where
  "make_config p ports =
     \<lparr>cfg_ports = ports, cfg_pkt_size = pkt_size p, cfg_vm = vm p,
      cfg_iteration_duration = iteration_duration p,
      cfg_q_ful_resolution = q_ful_resolution p,
      cfg_first_run_duration = first_run_duration p, cfg_pdr = pdr p,
      cfg_pdr_error = pdr_error p, cfg_ndr_results = ndr_results p,
      cfg_latency = latency p, cfg_core_mask = core_mask p,
      cfg_verbose = verbose p, cfg_drop_rate_interval = drop_rate_interval p\<rparr>"

definition passed_message :: string where
  "passed_message = CHR 0x0A # ''Test has passed :-)'' @ [CHR 0x0A]"

definition failed_message :: string where
  "failed_message = CHR 0x0A # ''Test has failed :-('' @ [CHR 0x0A]"

text \<open>
  Lines 90 to 101. The statement yields the value of the local \<open>passed\<close> when control
  leaves it normally.
\<close>

definition search_block :: "'s env \<Rightarrow> config \<Rightarrow> pyval \<Rightarrow> bool \<Rightarrow> ('s, bool) prog" where
  "search_block env cfg latency' passed =
     try_except_finally
       (andthen (extern env Find_ndr (\<lambda>_. ())) (\<lambda>_.
        andthen (if truthy (cfg_verbose cfg)
                 then extern env (Print_final latency') (\<lambda>_. ())
                 else ret ()) (\<lambda>_.
        ret passed)))
       (\<lambda>e.
          let passed = False in
          andthen (print e) (\<lambda>_.
          sys_exit 1))
       (extern env Disconnect (\<lambda>_. ()))"

text \<open>
  Lines 40 to 88: everything between the check of the port list and the \<open>try\<close>
  statement. The client \<open>c\<close> and the bench object \<open>b\<close> are handles of the external
  side; what the rest of the function reads is \<open>b.config\<close>, the configuration built here.
\<close>

definition prepare :: "'s env \<Rightarrow> params \<Rightarrow> ('s, config) prog" where
  "prepare env p =
     andthen (extern env (New_STLClient (server p)) (\<lambda>_. ())) (\<lambda>c.
     andthen (extern env Connect (\<lambda>_. ())) (\<lambda>_.
     andthen (extern env Reset (\<lambda>_. ())) (\<lambda>_.
     andthen (extern env Stl_map_ports (map_ports_result env)) (\<lambda>table.
     andthen (select_ports (ports_list p) table) (\<lambda>(dir_0, ports).
     andthen (build_streams_for_bench env (pkt_size p) (vm p) (fe_src_start_ip p)
                (fe_src_stop_ip p) (fe_dst_start_ip p) (fe_dst_stop_ip p) 0) (\<lambda>streams.
     let streams = (if truthy (latency p) then streams @ [latency_stream] else streams) in
     andthen (extern env (Add_streams streams dir_0) (\<lambda>_. ())) (\<lambda>_.
     let cfg = make_config p ports in
     andthen (extern env (New_NdrBenchConfig cfg) (\<lambda>_. ())) (\<lambda>_.
     andthen (extern env (New_NdrBench cfg) (\<lambda>_. ())) (\<lambda>b.
     ret cfg)))))))))"

text \<open>Lines 103 to 110: the report and the value returned.\<close>

definition report :: "'s env \<Rightarrow> pyval \<Rightarrow> bool \<Rightarrow> ('s, string option) prog" where
  "report env output' passed =
     andthen (print (if passed then passed_message else failed_message)) (\<lambda>_.
     andthen (extern env To_json (json_result env)) (\<lambda>result.
     if output' = PyStr ''json'' then ret (Some result) else ret None))"

definition ndr_benchmark_test :: "'s env \<Rightarrow> params \<Rightarrow> ('s, string option) prog" where
  "ndr_benchmark_test env p =
     (let passed = True in
      if truthy_list (ports_list p) \<and> length (the_list (ports_list p)) mod 2 \<noteq> 0 then
        andthen (print ''illegal ports list'') (\<lambda>_. ret None)
      else
        andthen (prepare env p) (\<lambda>cfg.
        andthen (search_block env cfg (latency p) passed) (\<lambda>passed.
        report env (output p) passed)))"

subsection \<open>The script\<close>

text \<open>The namespace that \<open>parser.parse_args()\<close> returns, one field per \<open>dest\<close>.\<close>

record namespace =
  args_server :: pyval
  args_core_mask :: pyval
  args_pdr :: pyval
  args_iteration_duration :: pyval
  args_ndr_results :: pyval
  args_setup_name :: pyval
  args_first_run_duration :: pyval
  args_verbose :: pyval
  args_max_iterations :: pyval
  args_pdr_error :: pyval
  args_q_ful_resolution :: pyval
  args_latency :: pyval
  args_vm :: pyval
  args_size :: pyval
  args_fe_src_start_ip :: pyval
  args_fe_src_stop_ip :: pyval
  args_fe_dst_start_ip :: pyval
  args_fe_dst_stop_ip :: pyval
  args_drop_rate_interval :: pyval
  args_output :: pyval
  args_ports_list :: "int list option"

text \<open>The defaults of the parser (the floats 0.1, 20.0, 1.0 and 2.0 as bit patterns).\<close>

definition parser_defaults :: namespace where
  "parser_defaults =
     \<lparr>args_server = PyStr ''127.0.0.1'', args_core_mask = PyNone,
      args_pdr = PyFloat 0x3FB999999999999A,
      args_iteration_duration = PyFloat 0x4034000000000000,
      args_ndr_results = PyInt 1, args_setup_name = PyStr ''trex'',
      args_first_run_duration = PyFloat 0x4034000000000000,
      args_verbose = PyBool False, args_max_iterations = PyInt 10,
      args_pdr_error = PyFloat 0x3FF0000000000000,
      args_q_ful_resolution = PyFloat 0x4000000000000000,
      args_latency = PyBool True, args_vm = PyStr ''none'', args_size = PyInt 64,
      args_fe_src_start_ip = PyNone, args_fe_src_stop_ip = PyNone,
      args_fe_dst_start_ip = PyNone, args_fe_dst_stop_ip = PyNone,
      args_drop_rate_interval = PyInt 10, args_output = PyNone,
      args_ports_list = None\<rparr>"

text \<open>Lines 223 to 227: the positional call.\<close>

definition call_params :: "namespace \<Rightarrow> params" where
  "call_params args =
     \<lparr>server = args_server args, core_mask = args_core_mask args, pdr = args_pdr args,
      iteration_duration = args_iteration_duration args,
      ndr_results = args_ndr_results args, setup_name = args_setup_name args,
      first_run_duration = args_first_run_duration args, verbose = args_verbose args,
      pdr_error = args_pdr_error args, q_ful_resolution = args_q_ful_resolution args,
      latency = args_latency args, vm = args_vm args, pkt_size = args_size args,
      fe_src_start_ip = args_fe_src_start_ip args,
      fe_src_stop_ip = args_fe_src_stop_ip args,
      fe_dst_start_ip = args_fe_dst_start_ip args,
      fe_dst_stop_ip = args_fe_dst_stop_ip args,
      drop_rate_interval = args_drop_rate_interval args, output = args_output args,
      ports_list = args_ports_list args\<rparr>"

definition script :: "'s env \<Rightarrow> namespace \<Rightarrow> string option outcome \<times> 's event list" where
  "script env args = ndr_benchmark_test env (call_params args) []"

text \<open>
  The exit status of the interpreter: 0 when the script runs to its end, the argument of
  \<open>sys.exit\<close>, and 1 for an exception nobody catches.
\<close>

fun exit_status :: "'a outcome \<Rightarrow> int" where
  "exit_status (Return _) = 0"
| "exit_status (Exit n) = n"
| "exit_status (Raise _) = 1"

subsection \<open>A cooperative environment and a failing search\<close>

text \<open>
  Two concrete environments and the parameters of a run with the parser's defaults, used
  to evaluate the model. In \<open>lab_env\<close> no call raises, and \<open>to_json\<close> answers \<open>{}\<close> (any
  other call asked for the JSON string gets a different text); in \<open>failing_env\<close> the
  search raises an \<open>STLError\<close>.
\<close>

definition lab_env :: "nat env" where
  "lab_env =
     \<lparr>raises = (\<lambda>_. None),
      map_ports_result = (\<lambda>_. \<lparr>bi = [(0, 1), (2, 3)]\<rparr>),
      bench_ip_range = (\<lambda>_. \<lparr>src_start = PyStr ''16.0.0.1'', src_end = PyStr ''16.0.0.254'',
                               dst_start = PyStr ''48.0.0.1'', dst_end = PyStr ''48.0.0.254''\<rparr>),
      streams_result = (\<lambda>_. [Bench_stream 0]),
      json_result = (\<lambda>h. if last h = To_json then ''{}'' else ''no to_json call'')\<rparr>"

definition failing_env :: "nat env" where
  "failing_env =
     lab_env\<lparr>raises := (\<lambda>h. if last h = Find_ndr then Some (STLError ''search failed'') else None)\<rparr>"

definition default_params :: params where
  "default_params = call_params parser_defaults"

subsection \<open>Events a program may emit\<close>

text \<open>\<open>emits Q m\<close>: from any history, \<open>m\<close> only appends events that satisfy \<open>Q\<close>.\<close>

definition emits :: "('s event \<Rightarrow> bool) \<Rightarrow> ('s, 'a) prog \<Rightarrow> bool" where
  "emits Q m \<longleftrightarrow> (\<forall>h. \<exists>t. snd (m h) = h @ t \<and> list_all Q t)"

definition before_search :: "'s event \<Rightarrow> bool" where
  "before_search e \<longleftrightarrow> e \<noteq> Find_ndr \<and> e \<noteq> Disconnect \<and> e \<noteq> To_json \<and> (\<forall>s. e \<noteq> Print s) \<and> (\<forall>l. e \<noteq> Print_final l)"

section \<open>Auxiliary lemmas\<close>


lemma andthen_ReturnD:
  "andthen m k h = (Return y, h2) \<Longrightarrow> \<exists>x h1. m h = (Return x, h1) \<and> k x h1 = (Return y, h2)"
  by (auto simp: andthen_def split: prod.splits outcome.splits)

lemma extern_ReturnD:
  "extern env ev r h = (Return x, h') \<Longrightarrow>
     h' = h @ [ev] \<and> x = r (h @ [ev]) \<and> raises env (h @ [ev]) = None"
  by (auto simp: extern_def Let_def split: option.splits)

lemma ret_ReturnD: "ret x h = (Return y, h') \<Longrightarrow> y = x \<and> h' = h"
  by (simp add: ret_def)

lemma select_ports_ReturnD:
  "select_ports pl t h = (Return (d, ps), h') \<Longrightarrow>
     h' = h \<and>
     (if truthy_list pl then d = every_second (the_list pl) \<and> ps = the_list pl
      else \<exists>a b rest. bi t = (a, b) # rest \<and> d = [a] \<and> ps = [a, b])"
  by (auto simp: select_ports_def ret_def raise_def split: if_splits list.splits)

lemma build_streams_ReturnD:
  "build_streams_for_bench env s v a b c d dir h = (Return ss, h') \<Longrightarrow>
     truthy v \<and>
     h' = h @ [New_STLBench,
               Get_streams (override_ip_range (bench_ip_range env (h @ [New_STLBench])) a b c d) s v dir] \<and>
     ss = streams_result env h' \<and>
     raises env (h @ [New_STLBench]) = None \<and> raises env h' = None"
  by (auto simp: build_streams_for_bench_def raise_def
        dest!: andthen_ReturnD extern_ReturnD ret_ReturnD split: if_splits option.splits)

lemma prepare_ReturnD:
  assumes "prepare env p [] = (Return cfg, h')"
  shows "\<exists>rng streams dir_0 ports.
     h' = [New_STLClient (server p), Connect, Reset, Stl_map_ports, New_STLBench,
           Get_streams rng (pkt_size p) (vm p) 0, Add_streams streams dir_0,
           New_NdrBenchConfig cfg, New_NdrBench cfg]
     \<and> cfg = make_config p ports
     \<and> (if truthy_list (ports_list p)
         then dir_0 = every_second (the_list (ports_list p)) \<and> ports = the_list (ports_list p)
         else \<exists>a b rest. bi (map_ports_result env
                 [New_STLClient (server p), Connect, Reset, Stl_map_ports]) = (a, b) # rest
               \<and> dir_0 = [a] \<and> ports = [a, b])
     \<and> truthy (vm p)"
  using assms unfolding prepare_def Let_def
  apply (clarsimp dest!: andthen_ReturnD extern_ReturnD ret_ReturnD select_ports_ReturnD build_streams_ReturnD
         simp del: split_paired_Ex)
  apply (auto split: if_splits)
  done

lemma emits_ret: "emits Q (ret x)"
  by (simp add: emits_def ret_def)

lemma emits_raise: "emits Q (raise e)"
  by (simp add: emits_def raise_def)

lemma emits_extern: "Q ev \<Longrightarrow> emits Q (extern env ev r)"
  by (simp add: emits_def extern_def Let_def split: option.splits)

lemma emits_andthen:
  assumes "emits Q m" and "\<And>x. emits Q (k x)"
  shows "emits Q (andthen m k)"
  unfolding emits_def
proof
  fix h
  from assms(1) obtain t where t: "snd (m h) = h @ t" "list_all Q t"
    by (auto simp: emits_def)
  obtain out h1 where mh: "m h = (out, h1)" by (cases "m h")
  with t have h1: "h1 = h @ t" by simp
  show "\<exists>t. snd (andthen m k h) = h @ t \<and> list_all Q t"
  proof (cases out)
    case (Return x)
    from assms(2)[of x] obtain t2 where "snd (k x h1) = h1 @ t2" "list_all Q t2"
      by (auto simp: emits_def)
    with Return mh h1 t show ?thesis by (simp add: andthen_def)
  next
    case (Raise e)
    with mh h1 t show ?thesis by (simp add: andthen_def)
  next
    case (Exit n)
    with mh h1 t show ?thesis by (simp add: andthen_def)
  qed
qed

lemma emits_select_ports: "emits Q (select_ports pl t)"
  by (simp add: select_ports_def emits_ret emits_raise split: list.splits)

lemma emits_build_streams:
  assumes "Q New_STLBench" and "\<And>r. Q (Get_streams r s v dir)"
  shows "emits Q (build_streams_for_bench env s v a b c d dir)"
  unfolding build_streams_for_bench_def
  by (intro emits_andthen) (auto simp: assms emits_ret emits_raise emits_extern intro!: emits_andthen split: option.splits)

lemma emits_prepare: "emits before_search (prepare env p)"
  unfolding prepare_def Let_def
  by (auto simp: before_search_def
        intro!: emits_andthen emits_extern emits_select_ports emits_build_streams emits_ret)

lemma prepare_trace:
  "\<exists>t. snd (prepare env p h) = h @ t \<and> list_all before_search t"
  using emits_prepare[of env p] by (simp add: emits_def)

lemma search_block_result:
  "search_block env cfg lat b h =
     (let h1 = h @ [Find_ndr] in
      case raises env h1 of
        Some (STLError m) \<Rightarrow>
          (case raises env (h1 @ [Print m, Disconnect]) of
             None \<Rightarrow> (Exit 1, h1 @ [Print m, Disconnect])
           | Some e' \<Rightarrow> (Raise e', h1 @ [Print m, Disconnect]))
      | Some e \<Rightarrow>
          (case raises env (h1 @ [Disconnect]) of
             None \<Rightarrow> (Raise e, h1 @ [Disconnect])
           | Some e' \<Rightarrow> (Raise e', h1 @ [Disconnect]))
      | None \<Rightarrow>
          if truthy (cfg_verbose cfg) then
            (let h2 = h1 @ [Print_final lat] in
             case raises env h2 of
               Some (STLError m) \<Rightarrow>
                 (case raises env (h2 @ [Print m, Disconnect]) of
                    None \<Rightarrow> (Exit 1, h2 @ [Print m, Disconnect])
                  | Some e' \<Rightarrow> (Raise e', h2 @ [Print m, Disconnect]))
             | Some e \<Rightarrow>
                 (case raises env (h2 @ [Disconnect]) of
                    None \<Rightarrow> (Raise e, h2 @ [Disconnect])
                  | Some e' \<Rightarrow> (Raise e', h2 @ [Disconnect]))
             | None \<Rightarrow>
                 (case raises env (h2 @ [Disconnect]) of
                    None \<Rightarrow> (Return b, h2 @ [Disconnect])
                  | Some e' \<Rightarrow> (Raise e', h2 @ [Disconnect])))
          else
            (case raises env (h1 @ [Disconnect]) of
               None \<Rightarrow> (Return b, h1 @ [Disconnect])
             | Some e' \<Rightarrow> (Raise e', h1 @ [Disconnect])))"
  by (simp add: search_block_def try_except_finally_def andthen_def extern_def ret_def print_def
        sys_exit_def Let_def split: option.splits exn.splits)

lemma run_prepare_Return:
  assumes "\<not> (truthy_list (ports_list p) \<and> length (the_list (ports_list p)) mod 2 \<noteq> 0)"
    and "prepare env p [] = (Return cfg, h1)"
  shows "ndr_benchmark_test env p [] =
           andthen (search_block env cfg (latency p) True) (report env (output p)) h1"
  using assms by (auto simp: ndr_benchmark_test_def andthen_def[of "prepare env p"])

lemma run_prepare_fail:
  assumes "\<not> (truthy_list (ports_list p) \<and> length (the_list (ports_list p)) mod 2 \<noteq> 0)"
    and "prepare env p [] = (out, h1)" and "\<forall>cfg. out \<noteq> Return cfg"
  shows "snd (ndr_benchmark_test env p []) = h1"
  using assms by (cases out) (auto simp: ndr_benchmark_test_def andthen_def[of "prepare env p"])

lemma run_abort:
  assumes "truthy_list (ports_list p) \<and> length (the_list (ports_list p)) mod 2 \<noteq> 0"
  shows "ndr_benchmark_test env p [] = (Return None, [Print ''illegal ports list''])"
  using assms by (simp add: ndr_benchmark_test_def andthen_def print_def ret_def)


lemma search_block_shape:
  "\<exists>post. snd (search_block env cfg lat b h) = h @ Find_ndr # post
      \<and> list_all (\<lambda>e. e = Disconnect \<or> e = Print_final lat \<or> (\<exists>s. e = Print s)) post
      \<and> filter (\<lambda>e. e = Disconnect) post = [Disconnect]"
  by (simp add: search_block_def try_except_finally_def andthen_def extern_def ret_def print_def
        sys_exit_def Let_def split: option.splits exn.splits outcome.splits prod.splits)

lemma search_block_ReturnD:
  assumes "search_block env cfg lat b h = (Return x, h')"
  shows "x = b \<and> raises env (h @ [Find_ndr]) = None \<and> raises env h' = None \<and>
         (\<exists>mid. h' = h @ Find_ndr # mid @ [Disconnect] \<and> (mid = [] \<or> mid = [Print_final lat]))"
  using assms
  by (auto simp: search_block_result Let_def split: option.splits exn.splits if_splits)

lemma report_trace:
  "snd (report env outp b h) = h @ [Print (if b then passed_message else failed_message), To_json]"
  by (simp add: report_def andthen_def print_def extern_def ret_def Let_def split: option.splits)

lemma report_ReturnD:
  assumes "report env outp b h = (Return v, tr)"
  shows "tr = h @ [Print (if b then passed_message else failed_message), To_json] \<and>
         raises env tr = None \<and>
         v = (if outp = PyStr ''json'' then Some (json_result env tr) else None)"
  using assms
  by (auto simp: report_def andthen_def print_def extern_def ret_def Let_def
      split: option.splits if_splits)

lemma finish_shape:
  "\<exists>post. snd (andthen (search_block env cfg lat True) (report env outp) h) = h @ Find_ndr # post
      \<and> list_all (\<lambda>e. e = Disconnect \<or> e = To_json \<or> e = Print_final lat \<or> (\<exists>s. e = Print s)) post
      \<and> filter (\<lambda>e. e = Disconnect) post = [Disconnect]"
proof -
  obtain o1 h1 where sb: "search_block env cfg lat True h = (o1, h1)"
    by (cases "search_block env cfg lat True h")
  from search_block_shape[of env cfg lat True h] sb obtain post where
    post: "h1 = h @ Find_ndr # post"
      "list_all (\<lambda>e. e = Disconnect \<or> e = Print_final lat \<or> (\<exists>s. e = Print s)) post"
      "filter (\<lambda>e. e = Disconnect) post = [Disconnect]"
    by auto
  from post(2) have post2:
    "list_all (\<lambda>e. e = Disconnect \<or> e = To_json \<or> e = Print_final lat \<or> (\<exists>s. e = Print s)) post"
    by (simp add: list_all_iff) blast
  show ?thesis
  proof (cases o1)
    case (Return x)
    with sb have "snd (andthen (search_block env cfg lat True) (report env outp) h)
                   = h1 @ [Print (if x then passed_message else failed_message), To_json]"
      by (simp add: andthen_def report_trace)
    with post post2 show ?thesis by simp
  next
    case (Raise e)
    with sb have "snd (andthen (search_block env cfg lat True) (report env outp) h) = h1"
      by (simp add: andthen_def)
    with post post2 show ?thesis by simp
  next
    case (Exit n)
    with sb have "snd (andthen (search_block env cfg lat True) (report env outp) h) = h1"
      by (simp add: andthen_def)
    with post post2 show ?thesis by simp
  qed
qed

lemma finish_STLError:
  assumes "raises env (h @ [Find_ndr]) = Some (STLError m)"
  shows "andthen (search_block env cfg lat True) (report env outp) h =
           (case raises env (h @ [Find_ndr, Print m, Disconnect]) of
              None \<Rightarrow> (Exit 1, h @ [Find_ndr, Print m, Disconnect])
            | Some e' \<Rightarrow> (Raise e', h @ [Find_ndr, Print m, Disconnect]))"
  using assms
  by (simp add: andthen_def search_block_result Let_def split: option.splits)

lemma finish_ReturnD:
  assumes "andthen (search_block env cfg lat True) (report env outp) h = (Return v, tr)"
  shows "raises env (h @ [Find_ndr]) = None \<and>
         (\<exists>mid. tr = h @ Find_ndr # mid @ [Disconnect, Print passed_message, To_json]
            \<and> (mid = [] \<or> mid = [Print_final lat])) \<and>
         v = (if outp = PyStr ''json'' then Some (json_result env tr) else None)"
proof -
  from andthen_ReturnD[OF assms] obtain x h1 where
    sb: "search_block env cfg lat True h = (Return x, h1)" and rp: "report env outp x h1 = (Return v, tr)"
    by blast
  from search_block_ReturnD[OF sb] report_ReturnD[OF rp] show ?thesis
    by auto
qed

lemmas eval_defs = ndr_benchmark_test_def prepare_def report_def search_block_def
  try_except_finally_def build_streams_for_bench_def select_ports_def andthen_def extern_def
  ret_def raise_def print_def sys_exit_def Let_def

lemma default_params_fields:
  "server default_params = PyStr ''127.0.0.1''" "vm default_params = PyStr ''none''"
  "pkt_size default_params = PyInt 64" "latency default_params = PyBool True"
  "verbose default_params = PyBool False" "output default_params = PyNone"
  "ports_list default_params = None"
  "fe_src_start_ip default_params = PyNone" "fe_src_stop_ip default_params = PyNone"
  "fe_dst_start_ip default_params = PyNone" "fe_dst_stop_ip default_params = PyNone"
  by (simp_all add: default_params_def call_params_def parser_defaults_def)

lemma lab_env_fields:
  "raises lab_env = (\<lambda>_. None)"
  "map_ports_result lab_env = (\<lambda>_. \<lparr>bi = [(0, 1), (2, 3)]\<rparr>)"
  "bench_ip_range lab_env = (\<lambda>_. \<lparr>src_start = PyStr ''16.0.0.1'', src_end = PyStr ''16.0.0.254'',
                               dst_start = PyStr ''48.0.0.1'', dst_end = PyStr ''48.0.0.254''\<rparr>)"
  "streams_result lab_env = (\<lambda>_. [Bench_stream 0])"
  "json_result lab_env = (\<lambda>h. if last h = To_json then ''{}'' else ''no to_json call'')"
  by (simp_all add: lab_env_def)

lemma failing_env_fields:
  "raises failing_env = (\<lambda>h. if last h = Find_ndr then Some (STLError ''search failed'') else None)"
  "map_ports_result failing_env = (\<lambda>_. \<lparr>bi = [(0, 1), (2, 3)]\<rparr>)"
  "bench_ip_range failing_env = (\<lambda>_. \<lparr>src_start = PyStr ''16.0.0.1'', src_end = PyStr ''16.0.0.254'',
                               dst_start = PyStr ''48.0.0.1'', dst_end = PyStr ''48.0.0.254''\<rparr>)"
  "streams_result failing_env = (\<lambda>_. [Bench_stream 0])"
  "json_result failing_env = (\<lambda>h. if last h = To_json then ''{}'' else ''no to_json call'')"
  by (simp_all add: failing_env_def lab_env_def)

lemma default_ip_range:
  "override_ip_range r PyNone PyNone PyNone PyNone = r"
  by (simp add: override_ip_range_def)

lemma lab_run_json:
  "ndr_benchmark_test lab_env (default_params\<lparr>output := PyStr ''json''\<rparr>) [] =
     (Return (Some ''{}''),
      [New_STLClient (PyStr ''127.0.0.1''), Connect, Reset, Stl_map_ports, New_STLBench,
       Get_streams \<lparr>src_start = PyStr ''16.0.0.1'', src_end = PyStr ''16.0.0.254'',
                     dst_start = PyStr ''48.0.0.1'', dst_end = PyStr ''48.0.0.254''\<rparr>
                   (PyInt 64) (PyStr ''none'') 0,
       Add_streams [Bench_stream 0, latency_stream] [0],
       New_NdrBenchConfig (make_config (default_params\<lparr>output := PyStr ''json''\<rparr>) [0, 1]),
       New_NdrBench (make_config (default_params\<lparr>output := PyStr ''json''\<rparr>) [0, 1]),
       Find_ndr, Disconnect, Print passed_message, To_json])"
  by (simp add: eval_defs default_params_fields lab_env_fields default_ip_range make_config_def)

lemma lab_run_empty_ports:
  "ndr_benchmark_test lab_env (default_params\<lparr>ports_list := Some []\<rparr>) [] =
     (Return None,
      [New_STLClient (PyStr ''127.0.0.1''), Connect, Reset, Stl_map_ports, New_STLBench,
       Get_streams \<lparr>src_start = PyStr ''16.0.0.1'', src_end = PyStr ''16.0.0.254'',
                     dst_start = PyStr ''48.0.0.1'', dst_end = PyStr ''48.0.0.254''\<rparr>
                   (PyInt 64) (PyStr ''none'') 0,
       Add_streams [Bench_stream 0, latency_stream] [0],
       New_NdrBenchConfig (make_config (default_params\<lparr>ports_list := Some []\<rparr>) [0, 1]),
       New_NdrBench (make_config (default_params\<lparr>ports_list := Some []\<rparr>) [0, 1]),
       Find_ndr, Disconnect, Print passed_message, To_json])"
  by (simp add: eval_defs default_params_fields lab_env_fields default_ip_range make_config_def)

lemma failing_run:
  "ndr_benchmark_test failing_env default_params [] =
     (Exit 1,
      [New_STLClient (PyStr ''127.0.0.1''), Connect, Reset, Stl_map_ports, New_STLBench,
       Get_streams \<lparr>src_start = PyStr ''16.0.0.1'', src_end = PyStr ''16.0.0.254'',
                     dst_start = PyStr ''48.0.0.1'', dst_end = PyStr ''48.0.0.254''\<rparr>
                   (PyInt 64) (PyStr ''none'') 0,
       Add_streams [Bench_stream 0, latency_stream] [0],
       New_NdrBenchConfig (make_config default_params [0, 1]),
       New_NdrBench (make_config default_params [0, 1]),
       Find_ndr, Print ''search failed'', Disconnect])"
  by (simp add: eval_defs default_params_fields failing_env_fields default_ip_range make_config_def)

lemma andthen_eventD:
  "e \<in> set (snd (andthen m k h)) \<Longrightarrow>
     e \<in> set (snd (m h)) \<or> (\<exists>x h1. m h = (Return x, h1) \<and> e \<in> set (snd (k x h1)))"
  by (auto simp: andthen_def split: prod.splits outcome.splits)

lemma snd_extern: "snd (extern env ev r h) = h @ [ev]"
  by (simp add: extern_def Let_def split: option.splits)

lemma snd_ret: "snd (ret x h) = h"
  by (simp add: ret_def)

lemma snd_select_ports: "snd (select_ports pl t h) = h"
  by (simp add: select_ports_def ret_def raise_def split: list.splits)

lemma build_streams_eventD:
  assumes "e \<in> set (snd (build_streams_for_bench env s v a b c d dir h))"
  shows "e \<in> set h \<or> e = New_STLBench \<or> (\<exists>r. e = Get_streams r s v dir)"
proof -
  have "emits (\<lambda>e. e = New_STLBench \<or> (\<exists>r. e = Get_streams r s v dir))
          (build_streams_for_bench env s v a b c d dir)"
    by (rule emits_build_streams) auto
  then obtain t where "snd (build_streams_for_bench env s v a b c d dir h) = h @ t"
    and "list_all (\<lambda>e. e = New_STLBench \<or> (\<exists>r. e = Get_streams r s v dir)) t"
    by (auto simp: emits_def)
  with assms show ?thesis by (auto simp: list_all_iff)
qed

lemma prepare_Add_streamsD:
  assumes "Add_streams ss d \<in> set (snd (prepare env p []))"
  shows "\<exists>rng.
     ss = (if truthy (latency p)
           then streams_result env [New_STLClient (server p), Connect, Reset, Stl_map_ports,
                  New_STLBench, Get_streams rng (pkt_size p) (vm p) 0] @ [latency_stream]
           else streams_result env [New_STLClient (server p), Connect, Reset, Stl_map_ports,
                  New_STLBench, Get_streams rng (pkt_size p) (vm p) 0])
     \<and> (if truthy_list (ports_list p) then d = every_second (the_list (ports_list p))
         else \<exists>a b rest. bi (map_ports_result env
                 [New_STLClient (server p), Connect, Reset, Stl_map_ports]) = (a, b) # rest \<and> d = [a])"
  using assms unfolding prepare_def Let_def
  by (auto dest!: andthen_eventD extern_ReturnD select_ports_ReturnD build_streams_ReturnD
        ret_ReturnD build_streams_eventD
      simp: snd_extern snd_ret snd_select_ports split: if_splits)

lemma prepare_configD:
  assumes "New_NdrBenchConfig c \<in> set (snd (prepare env p []))"
  shows "\<exists>ports. c = make_config p ports
     \<and> (if truthy_list (ports_list p) then ports = the_list (ports_list p)
         else \<exists>a b rest. bi (map_ports_result env
                 [New_STLClient (server p), Connect, Reset, Stl_map_ports]) = (a, b) # rest \<and> ports = [a, b])"
  using assms unfolding prepare_def Let_def
  by (auto dest!: andthen_eventD extern_ReturnD select_ports_ReturnD build_streams_ReturnD
        ret_ReturnD build_streams_eventD
      simp: snd_extern snd_ret snd_select_ports split: if_splits)


lemma reach_search:
  assumes "Find_ndr \<in> set (snd (ndr_benchmark_test env p []))"
  obtains cfg h1 where "prepare env p [] = (Return cfg, h1)"
    and "ndr_benchmark_test env p [] =
           andthen (search_block env cfg (latency p) True) (report env (output p)) h1"
    and "list_all before_search h1"
proof -
  have noabort: "\<not> (truthy_list (ports_list p) \<and> length (the_list (ports_list p)) mod 2 \<noteq> 0)"
  proof
    assume "truthy_list (ports_list p) \<and> length (the_list (ports_list p)) mod 2 \<noteq> 0"
    from run_abort[OF this, of env] assms show False by simp
  qed
  obtain o1 h1 where pr: "prepare env p [] = (o1, h1)" by (cases "prepare env p []")
  from prepare_trace[of env p "[]"] pr have bs: "list_all before_search h1" by simp
  then have nf: "Find_ndr \<notin> set h1" by (auto simp: list_all_iff before_search_def)
  show thesis
  proof (cases o1)
    case (Return cfg)
    with pr run_prepare_Return[OF noabort, of env cfg h1] bs that show thesis by simp
  next
    case (Raise e)
    with pr run_prepare_fail[OF noabort, of env o1 h1] nf assms show thesis by simp
  next
    case (Exit n)
    with pr run_prepare_fail[OF noabort, of env o1 h1] nf assms show thesis by simp
  qed
qed

lemma run_event_in_prepare:
  assumes "e \<in> set (snd (ndr_benchmark_test env p []))" and "before_search e"
  shows "e \<in> set (snd (prepare env p []))"
proof (cases "truthy_list (ports_list p) \<and> length (the_list (ports_list p)) mod 2 \<noteq> 0")
  case True
  from run_abort[OF True, of env] assms show ?thesis by (simp add: before_search_def)
next
  case False
  obtain o1 h1 where pr: "prepare env p [] = (o1, h1)" by (cases "prepare env p []")
  show ?thesis
  proof (cases "\<exists>cfg. o1 = Return cfg")
    case True
    then obtain cfg where "o1 = Return cfg" by blast
    with pr run_prepare_Return[OF False, of env cfg h1]
    have run: "ndr_benchmark_test env p [] =
                 andthen (search_block env cfg (latency p) True) (report env (output p)) h1"
      by simp
    from finish_shape[of env cfg "latency p" "output p" h1] obtain post where
      "snd (andthen (search_block env cfg (latency p) True) (report env (output p)) h1) = h1 @ Find_ndr # post"
      and "list_all (\<lambda>e. e = Disconnect \<or> e = To_json \<or> e = Print_final (latency p) \<or> (\<exists>s. e = Print s)) post"
      by blast
    with run assms pr show ?thesis by (auto simp: before_search_def list_all_iff)
  next
    case False
    with pr run_prepare_fail[OF \<open>\<not> (truthy_list (ports_list p) \<and> length (the_list (ports_list p)) mod 2 \<noteq> 0)\<close>, of env o1 h1]
    have "snd (ndr_benchmark_test env p []) = h1" by simp
    with assms pr show ?thesis by simp
  qed
qed


lemma andthen_extends:
  assumes "\<And>x. emits Q (k x)"
  shows "\<exists>t. snd (andthen m k h) = snd (m h) @ t"
proof -
  obtain out h1 where mh: "m h = (out, h1)" by (cases "m h")
  show ?thesis
  proof (cases out)
    case (Return x)
    from assms[of x] obtain t where "snd (k x h1) = h1 @ t" by (auto simp: emits_def)
    with Return mh show ?thesis by (simp add: andthen_def)
  next
    case (Raise e)
    with mh show ?thesis by (simp add: andthen_def)
  next
    case (Exit n)
    with mh show ?thesis by (simp add: andthen_def)
  qed
qed

lemma prepare_first: "\<exists>t. snd (prepare env p []) = New_STLClient (server p) # t"
proof -
  have "\<exists>t. snd (prepare env p []) = snd (extern env (New_STLClient (server p)) (\<lambda>_. ()) []) @ t"
    unfolding prepare_def Let_def
    by (rule andthen_extends[where Q="\<lambda>_. True"])
       (auto intro!: emits_andthen emits_extern emits_select_ports emits_build_streams emits_ret)
  then show ?thesis by (simp add: snd_extern)
qed

lemma run_first:
  assumes "\<not> (truthy_list (ports_list p) \<and> length (the_list (ports_list p)) mod 2 \<noteq> 0)"
  shows "take 1 (snd (ndr_benchmark_test env p [])) = [New_STLClient (server p)]"
proof -
  obtain o1 h1 where pr: "prepare env p [] = (o1, h1)" by (cases "prepare env p []")
  from prepare_first[of env p] pr obtain t where h1: "h1 = New_STLClient (server p) # t" by auto
  show ?thesis
  proof (cases "\<exists>cfg. o1 = Return cfg")
    case True
    then obtain cfg where "o1 = Return cfg" by blast
    with pr run_prepare_Return[OF assms, of env cfg h1]
    have run: "ndr_benchmark_test env p [] =
                 andthen (search_block env cfg (latency p) True) (report env (output p)) h1"
      by simp
    from finish_shape[of env cfg "latency p" "output p" h1] obtain post where
      "snd (andthen (search_block env cfg (latency p) True) (report env (output p)) h1) = h1 @ Find_ndr # post"
      by blast
    with run h1 show ?thesis by simp
  next
    case False
    with pr run_prepare_fail[OF assms, of env o1 h1]
    have "snd (ndr_benchmark_test env p []) = h1" by simp
    with h1 show ?thesis by simp
  qed
qed

section \<open>Properties\<close>

text \<open>
  C1. A non-empty explicit port list of odd length: the tool prints the error message and
  returns at once. The message is the only event of the run, so no client is created or
  connected, no port is reset or mapped, no stream is built or attached and the search
  is not invoked.
\<close>

theorem odd_ports_list_aborts:
  assumes "ports_list p = Some ps" and "ps \<noteq> []" and "odd (length ps)"
  shows "ndr_benchmark_test env p [] = (Return None, [Print ''illegal ports list''])"
  using assms
  by (simp add: ndr_benchmark_test_def andthen_def print_def ret_def odd_iff_mod_2_eq_one)

theorem odd_ports_list_aborts_witness:
  "ports_list (default_params\<lparr>ports_list := Some [0, 1, 2]\<rparr>) = Some [0, 1, 2] \<and>
   [0, 1, 2] \<noteq> ([] :: int list) \<and> odd (length [0 :: int, 1, 2]) \<and>
   ndr_benchmark_test lab_env (default_params\<lparr>ports_list := Some [0, 1, 2]\<rparr>) [] =
     (Return None, [Print ''illegal ports list''])"
  using odd_ports_list_aborts [of "default_params\<lparr>ports_list := Some [0, 1, 2]\<rparr>" "[0, 1, 2]" lab_env]
  by simp

text \<open>
  C2. The search raises an \<open>STLError\<close>: in a run whose history reaches the call of
  \<open>find_ndr\<close> (after the calls \<open>pre\<close>), if the environment answers that call with
  \<open>STLError m\<close>, then what follows the call is exactly the print of the error and the
  disconnect, in this order, and nothing else; the exit status is not zero. It is 1
  from \<open>sys.exit(1)\<close> when the disconnect returns, and that of an uncaught exception when
  the disconnect itself raises.
\<close>

theorem search_error_exits_after_disconnect:
  assumes "ndr_benchmark_test env p [] = (out, tr)"
    and "tr = pre @ Find_ndr # post"
    and "raises env (pre @ [Find_ndr]) = Some (STLError m)"
  shows "post = [Print m, Disconnect] \<and> exit_status out \<noteq> 0 \<and>
         out = (case raises env tr of None \<Rightarrow> Exit 1 | Some e' \<Rightarrow> Raise e')"
proof -
  from assms(1,2) have "Find_ndr \<in> set (snd (ndr_benchmark_test env p []))" by simp
  then obtain cfg h1 where run: "ndr_benchmark_test env p [] =
        andthen (search_block env cfg (latency p) True) (report env (output p)) h1"
    and bs: "list_all before_search h1"
    by (rule reach_search)
  from bs have nf: "Find_ndr \<notin> set h1" by (auto simp: list_all_iff before_search_def)
  from run assms(1) have eq:
    "andthen (search_block env cfg (latency p) True) (report env (output p)) h1 = (out, tr)"
    by simp
  from finish_shape[of env cfg "latency p" "output p" h1] obtain post' where
    sh: "snd (andthen (search_block env cfg (latency p) True) (report env (output p)) h1)
           = h1 @ Find_ndr # post'"
    and la: "list_all (\<lambda>e. e = Disconnect \<or> e = To_json \<or> e = Print_final (latency p) \<or> (\<exists>s. e = Print s)) post'"
    by blast
  from sh eq have tr: "tr = h1 @ Find_ndr # post'" by simp
  from la have "Find_ndr \<notin> set post'" by (auto simp: list_all_iff)
  with nf tr assms(2) have pre: "pre = h1"
    using append_Cons_eq_iff[of Find_ndr h1 post' pre post] by auto
  from finish_STLError[of env h1 m cfg "latency p" "output p"] assms(3) pre eq
  have "(out, tr) = (case raises env (h1 @ [Find_ndr, Print m, Disconnect]) of
              None \<Rightarrow> (Exit 1, h1 @ [Find_ndr, Print m, Disconnect])
            | Some e' \<Rightarrow> (Raise e', h1 @ [Find_ndr, Print m, Disconnect]))"
    by simp
  with assms(2) pre show ?thesis
    by (auto split: option.splits)
qed

theorem search_error_exits_after_disconnect_witness:
  "ndr_benchmark_test failing_env default_params [] =
     (Exit 1, [New_STLClient (PyStr ''127.0.0.1''), Connect, Reset, Stl_map_ports, New_STLBench,
      Get_streams \<lparr>src_start = PyStr ''16.0.0.1'', src_end = PyStr ''16.0.0.254'',
                    dst_start = PyStr ''48.0.0.1'', dst_end = PyStr ''48.0.0.254''\<rparr>
                  (PyInt 64) (PyStr ''none'') 0,
      Add_streams [Bench_stream 0, latency_stream] [0],
      New_NdrBenchConfig (make_config default_params [0, 1]),
      New_NdrBench (make_config default_params [0, 1])] @ Find_ndr # [Print ''search failed'', Disconnect]) \<and>
   raises failing_env ([New_STLClient (PyStr ''127.0.0.1''), Connect, Reset, Stl_map_ports, New_STLBench,
      Get_streams \<lparr>src_start = PyStr ''16.0.0.1'', src_end = PyStr ''16.0.0.254'',
                    dst_start = PyStr ''48.0.0.1'', dst_end = PyStr ''48.0.0.254''\<rparr>
                  (PyInt 64) (PyStr ''none'') 0,
      Add_streams [Bench_stream 0, latency_stream] [0],
      New_NdrBenchConfig (make_config default_params [0, 1]),
      New_NdrBench (make_config default_params [0, 1])] @ [Find_ndr]) = Some (STLError ''search failed'') \<and>
   exit_status (Exit 1 :: string option outcome) \<noteq> 0 \<and>
   (Exit 1 :: string option outcome) =
     (case raises failing_env ([New_STLClient (PyStr ''127.0.0.1''), Connect, Reset, Stl_map_ports, New_STLBench,
      Get_streams \<lparr>src_start = PyStr ''16.0.0.1'', src_end = PyStr ''16.0.0.254'',
                    dst_start = PyStr ''48.0.0.1'', dst_end = PyStr ''48.0.0.254''\<rparr>
                  (PyInt 64) (PyStr ''none'') 0,
      Add_streams [Bench_stream 0, latency_stream] [0],
      New_NdrBenchConfig (make_config default_params [0, 1]),
      New_NdrBench (make_config default_params [0, 1])] @ Find_ndr # [Print ''search failed'', Disconnect]) of
        None \<Rightarrow> Exit 1 | Some e' \<Rightarrow> Raise e')"
proof -
  let ?pre = "[New_STLClient (PyStr ''127.0.0.1''), Connect, Reset, Stl_map_ports, New_STLBench,
      Get_streams \<lparr>src_start = PyStr ''16.0.0.1'', src_end = PyStr ''16.0.0.254'',
                    dst_start = PyStr ''48.0.0.1'', dst_end = PyStr ''48.0.0.254''\<rparr>
                  (PyInt 64) (PyStr ''none'') 0,
      Add_streams [Bench_stream 0, latency_stream] [0],
      New_NdrBenchConfig (make_config default_params [0, 1]),
      New_NdrBench (make_config default_params [0, 1])]"
  have run: "ndr_benchmark_test failing_env default_params [] = (Exit 1, ?pre @ Find_ndr # [Print ''search failed'', Disconnect])"
    by (simp add: failing_run)
  have r: "raises failing_env (?pre @ [Find_ndr]) = Some (STLError ''search failed'')"
    by (simp add: failing_env_fields)
  from search_error_exits_after_disconnect [OF run refl r] run r show ?thesis
    by simp
qed

text \<open>
  C3. In every run that reaches the search, whatever the search does (it returns, it
  raises an \<open>STLError\<close>, it raises anything else) and whatever happens afterwards, the
  history holds exactly one disconnect.
\<close>

theorem disconnect_exactly_once:
  assumes "Find_ndr \<in> set (snd (ndr_benchmark_test env p []))"
  shows "filter (\<lambda>e. e = Disconnect) (snd (ndr_benchmark_test env p [])) = [Disconnect]"
proof -
  from assms obtain cfg h1 where run: "ndr_benchmark_test env p [] =
        andthen (search_block env cfg (latency p) True) (report env (output p)) h1"
    and bs: "list_all before_search h1"
    by (rule reach_search)
  from bs have "filter (\<lambda>e. e = Disconnect) h1 = []"
    by (auto simp: list_all_iff before_search_def filter_empty_conv)
  with finish_shape[of env cfg "latency p" "output p" h1] run show ?thesis
    by auto
qed

theorem disconnect_exactly_once_witness:
  "Find_ndr \<in> set (snd (ndr_benchmark_test lab_env (default_params\<lparr>output := PyStr ''json''\<rparr>) [])) \<and>
   filter (\<lambda>e. e = Disconnect) (snd (ndr_benchmark_test lab_env (default_params\<lparr>output := PyStr ''json''\<rparr>) [])) = [Disconnect]"
proof -
  have h: "Find_ndr \<in> set (snd (ndr_benchmark_test lab_env (default_params\<lparr>output := PyStr ''json''\<rparr>) []))"
    by (simp add: lab_run_json)
  from h disconnect_exactly_once [OF h] show ?thesis by (rule conjI)
qed

text \<open>
  C4. A run that went through the search and returned normally ends with the disconnect,
  the print of the pass message and the call of \<open>b.results.to_json()\<close>, which is the only
  call of \<open>to_json\<close> in the history. It returns the JSON string that this call answered
  when \<open>output\<close> is the string \<open>'json'\<close>, and \<open>None\<close> for every other value of \<open>output\<close>.
\<close>

theorem json_returned_iff_requested:
  assumes "ndr_benchmark_test env p [] = (Return v, tr)" and "Find_ndr \<in> set tr"
  shows "v = (if output p = PyStr ''json'' then Some (json_result env tr) else None) \<and>
         (\<exists>pre. tr = pre @ [Disconnect, Print passed_message, To_json]) \<and>
         filter (\<lambda>e. e = To_json) tr = [To_json]"
proof -
  from assms have "Find_ndr \<in> set (snd (ndr_benchmark_test env p []))" by simp
  then obtain cfg h1 where run: "ndr_benchmark_test env p [] =
        andthen (search_block env cfg (latency p) True) (report env (output p)) h1"
    and bs: "list_all before_search h1"
    by (rule reach_search)
  from bs have nj: "filter (\<lambda>e. e = To_json) h1 = []"
    by (auto simp: list_all_iff before_search_def filter_empty_conv)
  from run assms(1) have "andthen (search_block env cfg (latency p) True) (report env (output p)) h1
                        = (Return v, tr)" by simp
  from finish_ReturnD[OF this] obtain mid where
    v: "v = (if output p = PyStr ''json'' then Some (json_result env tr) else None)"
    and tr: "tr = h1 @ Find_ndr # mid @ [Disconnect, Print passed_message, To_json]"
    and mid: "mid = [] \<or> mid = [Print_final (latency p)]"
    by blast
  from tr have "tr = (h1 @ Find_ndr # mid) @ [Disconnect, Print passed_message, To_json]"
    by simp
  then have e: "\<exists>pre. tr = pre @ [Disconnect, Print passed_message, To_json]" by blast
  from tr mid nj have f: "filter (\<lambda>e. e = To_json) tr = [To_json]" by auto
  from v e f show ?thesis by blast
qed

theorem json_returned_iff_requested_witness:
  "ndr_benchmark_test lab_env (default_params\<lparr>output := PyStr ''json''\<rparr>) [] = (Return (Some ''{}''), snd (ndr_benchmark_test lab_env (default_params\<lparr>output := PyStr ''json''\<rparr>) [])) \<and>
   Find_ndr \<in> set (snd (ndr_benchmark_test lab_env (default_params\<lparr>output := PyStr ''json''\<rparr>) [])) \<and>
   Some ''{}'' = (if output (default_params\<lparr>output := PyStr ''json''\<rparr>) = PyStr ''json''
                  then Some (json_result lab_env (snd (ndr_benchmark_test lab_env (default_params\<lparr>output := PyStr ''json''\<rparr>) []))) else None) \<and>
   (\<exists>pre. snd (ndr_benchmark_test lab_env (default_params\<lparr>output := PyStr ''json''\<rparr>) []) = pre @ [Disconnect, Print passed_message, To_json]) \<and>
   filter (\<lambda>e. e = To_json) (snd (ndr_benchmark_test lab_env (default_params\<lparr>output := PyStr ''json''\<rparr>) [])) = [To_json]"
proof -
  have r: "ndr_benchmark_test lab_env (default_params\<lparr>output := PyStr ''json''\<rparr>) [] = (Return (Some ''{}''), snd (ndr_benchmark_test lab_env (default_params\<lparr>output := PyStr ''json''\<rparr>) []))"
    by (simp add: lab_run_json)
  have h: "Find_ndr \<in> set (snd (ndr_benchmark_test lab_env (default_params\<lparr>output := PyStr ''json''\<rparr>) []))"
    by (simp add: lab_run_json)
  from json_returned_iff_requested [OF r h] r h show ?thesis by blast
qed



text \<open>
  C6. The failing half of the report does not happen. When the search raises an
  \<open>STLError\<close> the handler prints the error and calls \<open>sys.exit(1)\<close>; the \<open>finally\<close> clause
  disconnects and the exit goes on, so the \<open>if passed: ... else: ...\<close> after the \<open>try\<close>
  statement is never reached with \<open>passed\<close> false. Evaluated on the default arguments
  against a server whose search fails: the run ends with the print of the error and
  the disconnect, and the failure message is not printed.
\<close>

theorem failed_search_prints_no_fail_message:
  "ndr_benchmark_test failing_env default_params [] =
     (Exit 1, [New_STLClient (PyStr ''127.0.0.1''), Connect, Reset, Stl_map_ports, New_STLBench,
      Get_streams \<lparr>src_start = PyStr ''16.0.0.1'', src_end = PyStr ''16.0.0.254'',
                    dst_start = PyStr ''48.0.0.1'', dst_end = PyStr ''48.0.0.254''\<rparr>
                  (PyInt 64) (PyStr ''none'') 0,
      Add_streams [Bench_stream 0, latency_stream] [0],
      New_NdrBenchConfig (make_config default_params [0, 1]),
      New_NdrBench (make_config default_params [0, 1])] @ [Find_ndr, Print ''search failed'', Disconnect]) \<and>
   Print failed_message \<notin> set (snd (ndr_benchmark_test failing_env default_params []))"
  by (simp add: failing_run failed_message_def)

text \<open>
  C7. In every run that reaches the search, the history up to the search is: create the
  client, connect, reset, map the ports, create the stream builder, get the streams, add
  the streams, create the configuration, create the bench object, call the search. The
  ports of the configuration are the explicit list when one is given and not empty, and
  otherwise the first pair of the port map. The disconnect comes after the call of the
  search and not before it.
\<close>

theorem fixed_order_of_operations:
  assumes "Find_ndr \<in> set (snd (ndr_benchmark_test env p []))"
  shows "\<exists>rng streams dir_0 cfg post.
     snd (ndr_benchmark_test env p []) =
       [New_STLClient (server p), Connect, Reset, Stl_map_ports, New_STLBench,
        Get_streams rng (pkt_size p) (vm p) 0, Add_streams streams dir_0,
        New_NdrBenchConfig cfg, New_NdrBench cfg, Find_ndr] @ post
     \<and> (case ports_list p of
          Some (x # xs) \<Rightarrow> cfg_ports cfg = x # xs
        | _ \<Rightarrow> (\<exists>a b rest. bi (map_ports_result env
                    [New_STLClient (server p), Connect, Reset, Stl_map_ports]) = (a, b) # rest
                  \<and> cfg_ports cfg = [a, b]))
     \<and> Disconnect \<in> set post
     \<and> Disconnect \<notin> set (takeWhile (\<lambda>e. e \<noteq> Find_ndr) (snd (ndr_benchmark_test env p [])))"
proof -
  from assms obtain cfg h1 where pr: "prepare env p [] = (Return cfg, h1)"
    and run: "ndr_benchmark_test env p [] =
        andthen (search_block env cfg (latency p) True) (report env (output p)) h1"
    by (rule reach_search)
  from finish_shape[of env cfg "latency p" "output p" h1] run obtain post where
    tr: "snd (ndr_benchmark_test env p []) = h1 @ Find_ndr # post"
    and dis: "filter (\<lambda>e. e = Disconnect) post = [Disconnect]"
    by auto
  from dis have "Disconnect \<in> set (filter (\<lambda>e. e = Disconnect) post)" by simp
  then have dpost: "Disconnect \<in> set post" by simp
  from prepare_ReturnD[OF pr] obtain rng streams dir_0 ports where
    h1: "h1 = [New_STLClient (server p), Connect, Reset, Stl_map_ports, New_STLBench,
               Get_streams rng (pkt_size p) (vm p) 0, Add_streams streams dir_0,
               New_NdrBenchConfig cfg, New_NdrBench cfg]"
    and cfg: "cfg = make_config p ports"
    and sel: "if truthy_list (ports_list p)
         then dir_0 = every_second (the_list (ports_list p)) \<and> ports = the_list (ports_list p)
         else \<exists>a b rest. bi (map_ports_result env
                 [New_STLClient (server p), Connect, Reset, Stl_map_ports]) = (a, b) # rest
               \<and> dir_0 = [a] \<and> ports = [a, b]"
    by blast
  from cfg have cp: "cfg_ports cfg = ports" by (simp add: make_config_def)
  have sel': "case ports_list p of
          Some (x # xs) \<Rightarrow> cfg_ports cfg = x # xs
        | _ \<Rightarrow> (\<exists>a b rest. bi (map_ports_result env
                    [New_STLClient (server p), Connect, Reset, Stl_map_ports]) = (a, b) # rest
                  \<and> cfg_ports cfg = [a, b])"
  proof (cases "ports_list p")
    case None
    with sel cp show ?thesis by auto
  next
    case (Some ps)
    with sel cp show ?thesis by (cases ps) auto
  qed
  from tr h1 have tw: "takeWhile (\<lambda>e. e \<noteq> Find_ndr) (snd (ndr_benchmark_test env p [])) = h1"
    by simp
  from h1 have "Disconnect \<notin> set h1" by simp
  with tw have nd: "Disconnect \<notin> set (takeWhile (\<lambda>e. e \<noteq> Find_ndr) (snd (ndr_benchmark_test env p [])))"
    by simp
  from tr h1 dpost sel' nd show ?thesis by auto
qed

theorem fixed_order_of_operations_witness:
  "Find_ndr \<in> set (snd (ndr_benchmark_test lab_env (default_params\<lparr>output := PyStr ''json''\<rparr>) [])) \<and>
   (\<exists>rng streams dir_0 cfg post.
     snd (ndr_benchmark_test lab_env (default_params\<lparr>output := PyStr ''json''\<rparr>) []) =
       [New_STLClient (server (default_params\<lparr>output := PyStr ''json''\<rparr>)), Connect, Reset, Stl_map_ports, New_STLBench,
        Get_streams rng (pkt_size (default_params\<lparr>output := PyStr ''json''\<rparr>)) (vm (default_params\<lparr>output := PyStr ''json''\<rparr>)) 0, Add_streams streams dir_0,
        New_NdrBenchConfig cfg, New_NdrBench cfg, Find_ndr] @ post
     \<and> (case ports_list (default_params\<lparr>output := PyStr ''json''\<rparr>) of
          Some (x # xs) \<Rightarrow> cfg_ports cfg = x # xs
        | _ \<Rightarrow> (\<exists>a b rest. bi (map_ports_result lab_env
                    [New_STLClient (server (default_params\<lparr>output := PyStr ''json''\<rparr>)), Connect, Reset, Stl_map_ports]) = (a, b) # rest
                  \<and> cfg_ports cfg = [a, b]))
     \<and> Disconnect \<in> set post
     \<and> Disconnect \<notin> set (takeWhile (\<lambda>e. e \<noteq> Find_ndr) (snd (ndr_benchmark_test lab_env (default_params\<lparr>output := PyStr ''json''\<rparr>) []))))"
proof -
  have h: "Find_ndr \<in> set (snd (ndr_benchmark_test lab_env (default_params\<lparr>output := PyStr ''json''\<rparr>) []))"
    by (simp add: lab_run_json)
  from h fixed_order_of_operations [OF h] show ?thesis by (rule conjI)
qed

text \<open>
  C8. \<open>build_streams_for_bench\<close> with a falsy \<open>vm\<close> (the empty string, \<open>None\<close>, \<open>False\<close>,
  and also 0 and 0.0): \<open>stl_bench\<close> is never bound, no call leaves the function (the
  history is unchanged), and the function raises \<open>UnboundLocalError\<close> instead of
  returning streams.
\<close>

theorem unbound_stl_bench:
  assumes "\<not> truthy v"
  shows "build_streams_for_bench env s v a b c d dir h = (Raise (UnboundLocalError ''stl_bench''), h)"
  using assms by (simp add: build_streams_for_bench_def andthen_def ret_def raise_def)

theorem unbound_stl_bench_witness:
  "\<not> truthy (PyStr []) \<and> \<not> truthy PyNone \<and> \<not> truthy (PyBool False) \<and>
   build_streams_for_bench lab_env (PyInt 64) (PyStr []) PyNone PyNone PyNone PyNone 0 [] =
     (Raise (UnboundLocalError ''stl_bench''), []) \<and>
   build_streams_for_bench lab_env (PyInt 64) PyNone PyNone PyNone PyNone PyNone 0 [] =
     (Raise (UnboundLocalError ''stl_bench''), []) \<and>
   build_streams_for_bench lab_env (PyInt 64) (PyBool False) PyNone PyNone PyNone PyNone 0 [] =
     (Raise (UnboundLocalError ''stl_bench''), [])"
proof -
  have a: "\<not> truthy (PyStr [])" and b: "\<not> truthy PyNone" and c: "\<not> truthy (PyBool False)"
    by simp_all
  from unbound_stl_bench [OF a, of lab_env "PyInt 64" PyNone PyNone PyNone PyNone 0 "[]"]
    unbound_stl_bench [OF b, of lab_env "PyInt 64" PyNone PyNone PyNone PyNone 0 "[]"]
    unbound_stl_bench [OF c, of lab_env "PyInt 64" PyNone PyNone PyNone PyNone 0 "[]"] a b c
  show ?thesis by blast
qed

text \<open>
  C9. \<open>setup_name\<close> and \<open>max_iterations\<close> have no effect. \<open>max_iterations\<close> is parsed and
  never passed to \<open>ndr_benchmark_test\<close>; \<open>setup_name\<close> is passed and never read. Two
  runs of the script that differ only in them have the same outcome and the same
  history, event for event (so the same streams, ports and configuration), against any
  environment.
\<close>

theorem setup_name_max_iterations_unused:
  "script env (args\<lparr>args_setup_name := x, args_max_iterations := y\<rparr>) = script env args \<and>
   ndr_benchmark_test env (p\<lparr>setup_name := x\<rparr>) h = ndr_benchmark_test env p h"
  by (simp add: script_def call_params_def ndr_benchmark_test_def prepare_def make_config_def)

text \<open>
  C10. An explicit empty port list behaves as no port list: the run is, outcome and
  history, the run with \<open>ports_list = None\<close>; it does not stop at the check of the list
  but goes on to create the client; and whenever it attaches streams or builds the
  configuration, the transmit side is the first element of the first pair of the port
  map and the ports are that pair.
\<close>

theorem empty_ports_list_as_none:
  "ndr_benchmark_test env (p\<lparr>ports_list := Some []\<rparr>) [] =
     ndr_benchmark_test env (p\<lparr>ports_list := None\<rparr>) []
   \<and> take 1 (snd (ndr_benchmark_test env (p\<lparr>ports_list := Some []\<rparr>) [])) = [New_STLClient (server p)]
   \<and> (\<forall>ss d. Add_streams ss d \<in> set (snd (ndr_benchmark_test env (p\<lparr>ports_list := Some []\<rparr>) [])) \<longrightarrow>
        (\<exists>a b rest. bi (map_ports_result env [New_STLClient (server p), Connect, Reset, Stl_map_ports])
            = (a, b) # rest \<and> d = [a]))
   \<and> (\<forall>c. New_NdrBenchConfig c \<in> set (snd (ndr_benchmark_test env (p\<lparr>ports_list := Some []\<rparr>) [])) \<longrightarrow>
        (\<exists>a b rest. bi (map_ports_result env [New_STLClient (server p), Connect, Reset, Stl_map_ports])
            = (a, b) # rest \<and> cfg_ports c = [a, b]))"
proof (intro conjI allI impI)
  show "ndr_benchmark_test env (p\<lparr>ports_list := Some []\<rparr>) [] =
     ndr_benchmark_test env (p\<lparr>ports_list := None\<rparr>) []"
    by (simp add: ndr_benchmark_test_def prepare_def select_ports_def make_config_def)
next
  show "take 1 (snd (ndr_benchmark_test env (p\<lparr>ports_list := Some []\<rparr>) [])) = [New_STLClient (server p)]"
    using run_first[of "p\<lparr>ports_list := Some []\<rparr>" env] by simp
next
  fix ss d
  assume "Add_streams ss d \<in> set (snd (ndr_benchmark_test env (p\<lparr>ports_list := Some []\<rparr>) []))"
  then have "Add_streams ss d \<in> set (snd (prepare env (p\<lparr>ports_list := Some []\<rparr>) []))"
    by (rule run_event_in_prepare) (simp add: before_search_def)
  from prepare_Add_streamsD[OF this]
  show "\<exists>a b rest. bi (map_ports_result env [New_STLClient (server p), Connect, Reset, Stl_map_ports])
            = (a, b) # rest \<and> d = [a]"
    by auto
next
  fix c
  assume "New_NdrBenchConfig c \<in> set (snd (ndr_benchmark_test env (p\<lparr>ports_list := Some []\<rparr>) []))"
  then have "New_NdrBenchConfig c \<in> set (snd (prepare env (p\<lparr>ports_list := Some []\<rparr>) []))"
    by (rule run_event_in_prepare) (simp add: before_search_def)
  from prepare_configD[OF this]
  show "\<exists>a b rest. bi (map_ports_result env [New_STLClient (server p), Connect, Reset, Stl_map_ports])
            = (a, b) # rest \<and> cfg_ports c = [a, b]"
    by (auto simp: make_config_def)
qed

theorem empty_ports_list_as_none_witness:
  "ndr_benchmark_test lab_env (default_params\<lparr>ports_list := Some []\<rparr>) [] =
     ndr_benchmark_test lab_env (default_params\<lparr>ports_list := None\<rparr>) [] \<and>
   take 1 (snd (ndr_benchmark_test lab_env (default_params\<lparr>ports_list := Some []\<rparr>) [])) = [New_STLClient (server default_params)] \<and>
   Add_streams [Bench_stream 0, latency_stream] [0] \<in> set (snd (ndr_benchmark_test lab_env (default_params\<lparr>ports_list := Some []\<rparr>) [])) \<and>
   New_NdrBenchConfig (make_config (default_params\<lparr>ports_list := Some []\<rparr>) [0, 1]) \<in> set (snd (ndr_benchmark_test lab_env (default_params\<lparr>ports_list := Some []\<rparr>) [])) \<and>
   (\<exists>a b rest. bi (map_ports_result lab_env
        [New_STLClient (server default_params), Connect, Reset, Stl_map_ports]) = (a, b) # rest
      \<and> [0] = [a] \<and> cfg_ports (make_config (default_params\<lparr>ports_list := Some []\<rparr>) [0, 1]) = [a, b])"
proof -
  have a: "Add_streams [Bench_stream 0, latency_stream] [0] \<in> set (snd (ndr_benchmark_test lab_env (default_params\<lparr>ports_list := Some []\<rparr>) []))"
    by (simp add: lab_run_empty_ports)
  have c: "New_NdrBenchConfig (make_config (default_params\<lparr>ports_list := Some []\<rparr>) [0, 1]) \<in> set (snd (ndr_benchmark_test lab_env (default_params\<lparr>ports_list := Some []\<rparr>) []))"
    by (simp add: lab_run_empty_ports)
  from empty_ports_list_as_none [of lab_env default_params] a c show ?thesis
    by fastforce
qed

end
